theory Spec2Isabelle
  imports Main
begin

section \<open>Process configuration (app/auth.py, lines 11-16)\<close>

text \<open>
  The process environment is a dictionary from variable names to strings.
  \<^verbatim>\<open>os.getenv(k, d)\<close> returns the value stored under \<open>k\<close>, and \<open>d\<close> when the
  variable is unset.
\<close>

type_synonym environ = "string \<rightharpoonup> string"

definition getenv :: "environ \<Rightarrow> string \<Rightarrow> string \<Rightarrow> string" where
  "getenv env k d = (case env k of None \<Rightarrow> d | Some v \<Rightarrow> v)"

text \<open>
  \<^verbatim>\<open>int(s)\<close> on a string of ASCII characters: surrounding white space is dropped,
  one sign is allowed, then decimal digits, with single underscores between digits.
  Anything else raises \<^verbatim>\<open>ValueError\<close>, here \<open>None\<close>.
\<close>

definition is_space :: "char \<Rightarrow> bool" where
  "is_space c = (c \<in> set [CHR '' '', CHR 0x09, CHR 0x0A, CHR 0x0B, CHR 0x0C, CHR 0x0D,
                            CHR 0x1C, CHR 0x1D, CHR 0x1E, CHR 0x1F])"

definition is_digit :: "char \<Rightarrow> bool" where
  "is_digit c = (48 \<le> (of_char c :: nat) \<and> (of_char c :: nat) \<le> 57)"

definition strip :: "string \<Rightarrow> string" where
  "strip s = rev (dropWhile is_space (rev (dropWhile is_space s)))"

fun digits_value :: "bool \<Rightarrow> nat \<Rightarrow> string \<Rightarrow> nat option" where
  "digits_value d acc [] = (if d then Some acc else None)"
| "digits_value d acc (c # cs) =
     (if is_digit c then digits_value True (acc * 10 + (of_char c - 48)) cs
      else if c = CHR ''_'' \<and> d \<and> cs \<noteq> [] \<and> is_digit (hd cs) then digits_value False acc cs
      else None)"

definition int_of_str :: "string \<Rightarrow> int option" where
  "int_of_str s =
     (case strip s of
        [] \<Rightarrow> None
      | c # cs \<Rightarrow>
          if c = CHR ''-'' then map_option (\<lambda>n. - int n) (digits_value False 0 cs)
          else if c = CHR ''+'' then map_option int (digits_value False 0 cs)
          else map_option int (digits_value False 0 (c # cs)))"

datatype http_exception =
  HTTPException (status_code: nat) (detail: string) (headers: "(string \<times> string) list option")

datatype error =
    Http http_exception
  | ValueError
  | MultipleResultsFound

record config =
  SECRET_KEY :: string
  ALGORITHM :: string
  ACCESS_TOKEN_EXPIRE_MINUTES :: int
  PASSWORD_SALT :: string

text \<open>
  Importing \<^verbatim>\<open>app.auth\<close> runs the four module-level assignments. The only one
  that can raise is the \<^verbatim>\<open>int(...)\<close> around the token lifetime; its default is the
  integer 30, which \<^verbatim>\<open>int\<close> returns unchanged.
\<close>

definition load_auth :: "environ \<Rightarrow> error + config" where
  "load_auth env =
     (let secret_key = getenv env ''SECRET_KEY'' ''your-secret-key-change-in-production'';
          algorithm = getenv env ''ALGORITHM'' ''HS256''
      in case (case env ''ACCESS_TOKEN_EXPIRE_MINUTES'' of
                 None \<Rightarrow> Some 30
               | Some v \<Rightarrow> int_of_str v) of
           None \<Rightarrow> Inl ValueError
         | Some minutes \<Rightarrow>
             Inr \<lparr> SECRET_KEY = secret_key,
                   ALGORITHM = algorithm,
                   ACCESS_TOKEN_EXPIRE_MINUTES = minutes,
                   PASSWORD_SALT = getenv env ''PASSWORD_SALT'' ''hr_system_salt_2024'' \<rparr>)"

section \<open>Credential hasher\<close>

subsection \<open>app/auth.py: digest of password and process-wide salt\<close>

text \<open>
  \<^verbatim>\<open>hashlib.sha256(x.encode()).hexdigest()\<close> is a function of the standard
  library, not of this repository; it is the parameter \<open>sha256\<close> of the two functions
  below. \<^verbatim>\<open>secrets.compare_digest\<close> decides equality of its two arguments.
\<close>

definition get_password_hash :: "(string \<Rightarrow> string) \<Rightarrow> config \<Rightarrow> string \<Rightarrow> string" where
  "get_password_hash sha256 cfg password = sha256 (password @ PASSWORD_SALT cfg)"

definition verify_password ::
  "(string \<Rightarrow> string) \<Rightarrow> config \<Rightarrow> string \<Rightarrow> string \<Rightarrow> bool" where
  "verify_password sha256 cfg plain_password hashed_password =
     (let test_hash = get_password_hash sha256 cfg plain_password
      in test_hash = hashed_password)"

text \<open>
  A stand-in for the digest function, used only where a closed instance of a statement
  needs some concrete function in place of the parameter.
\<close>

definition tagged_digest :: "string \<Rightarrow> string" where
  "tagged_digest s = ''sha256:'' @ s"

subsection \<open>app/crud.py: bcrypt with a fresh salt per call\<close>






section \<open>Signed assertions (the PyJWT calls of app/auth.py and app/main.py)\<close>

text \<open>
  Instants are whole seconds since the epoch, the unit of the \<^verbatim>\<open>exp\<close> claim; a
  \<^verbatim>\<open>timedelta\<close> is a whole number of seconds. The payload dictionary is read and
  written under the two keys \<^verbatim>\<open>"sub"\<close> and \<^verbatim>\<open>"exp"\<close> only; an absent key is
  \<open>None\<close>.
\<close>

record claims =
  sub :: "string option"
  exp :: "int option"

text \<open>
  \<^verbatim>\<open>jwt.encode\<close> and \<^verbatim>\<open>jwt.decode\<close> belong to an external library. They are
  modelled symbolically, after sections 4.2 and 4.3 of the specification: a bearer value is
  either a string that is no compact three-part structure, or a payload signed under some
  key with some algorithm. Decoding rejects the first, then an algorithm outside the
  accepted list, then a signature made under another key, then an expiry instant that is
  not in the future; a payload without expiry is not checked for it. The configured
  algorithm is taken to be one the library implements for a string secret.
\<close>

datatype token =
    Opaque string
  | JWS claims string string

datatype jwt_error =
    DecodeError
  | InvalidAlgorithmError
  | InvalidSignatureError
  | ExpiredSignatureError

definition jwt_encode :: "claims \<Rightarrow> string \<Rightarrow> string \<Rightarrow> token" where
  "jwt_encode payload key algorithm = JWS payload key algorithm"

fun jwt_decode :: "int \<Rightarrow> token \<Rightarrow> string \<Rightarrow> string list \<Rightarrow> jwt_error + claims" where
  "jwt_decode now (Opaque s) key algorithms = Inl DecodeError"
| "jwt_decode now (JWS payload k a) key algorithms =
     (if a \<notin> set algorithms then Inl InvalidAlgorithmError
      else if k \<noteq> key then Inl InvalidSignatureError
      else case exp payload of
             None \<Rightarrow> Inr payload
           | Some e \<Rightarrow> if e \<le> now then Inl ExpiredSignatureError else Inr payload)"

text \<open>\<^verbatim>\<open>timedelta(minutes=m)\<close>, and the truth value of an optional \<^verbatim>\<open>timedelta\<close>
  in \<^verbatim>\<open>if expires_delta:\<close>: \<^verbatim>\<open>None\<close> and the zero duration are both false.\<close>

definition timedelta_minutes :: "int \<Rightarrow> int" where
  "timedelta_minutes m = 60 * m"

fun truthy :: "int option \<Rightarrow> bool" where
  "truthy None = False"
| "truthy (Some d) = (d \<noteq> 0)"

text \<open>app/auth.py, \<^verbatim>\<open>create_access_token\<close>; \<open>now\<close> is what
  \<^verbatim>\<open>datetime.utcnow()\<close> returns.\<close>

definition create_access_token :: "config \<Rightarrow> int \<Rightarrow> claims \<Rightarrow> int option \<Rightarrow> token" where
  "create_access_token cfg now data expires_delta =
     (let to_encode = data;
          expire = (if truthy expires_delta then now + the expires_delta
                    else now + timedelta_minutes (ACCESS_TOKEN_EXPIRE_MINUTES cfg));
          to_encode = to_encode\<lparr>exp := Some expire\<rparr>
      in jwt_encode to_encode (SECRET_KEY cfg) (ALGORITHM cfg))"

definition credentials_exception :: http_exception where
  "credentials_exception =
     HTTPException 401 ''Could not validate credentials'' (Some [(''WWW-Authenticate'', ''Bearer'')])"

definition expired_exception :: http_exception where
  "expired_exception = HTTPException 401 ''Token has expired'' None"

text \<open>
  The \<^verbatim>\<open>try\<close> block shared by \<^verbatim>\<open>verify_token\<close> (app/auth.py) and
  \<^verbatim>\<open>get_current_user\<close> (app/main.py): the handler for
  \<^verbatim>\<open>ExpiredSignatureError\<close> comes first, the handler for \<^verbatim>\<open>InvalidTokenError\<close>
  takes every other decoding error (all are its subclasses), and the
  \<^verbatim>\<open>HTTPException\<close> raised inside the block for a missing subject passes both.
\<close>

definition verify_token :: "config \<Rightarrow> int \<Rightarrow> token \<Rightarrow> error + string" where
  "verify_token cfg now tok =
     (case jwt_decode now tok (SECRET_KEY cfg) [ALGORITHM cfg] of
        Inr payload \<Rightarrow>
          (case sub payload of
             None \<Rightarrow> Inl (Http credentials_exception)
           | Some username \<Rightarrow> Inr username)
      | Inl ExpiredSignatureError \<Rightarrow> Inl (Http expired_exception)
      | Inl _ \<Rightarrow> Inl (Http credentials_exception))"

text \<open>A payload is unexpired at \<open>now\<close> when it carries no expiry or one still in the
  future.\<close>

definition unexpired :: "int \<Rightarrow> claims \<Rightarrow> bool" where
  "unexpired now p = (case exp p of None \<Rightarrow> True | Some e \<Rightarrow> now < e)"

section \<open>Accounts and the access guard (app/models.py, app/main.py)\<close>

text \<open>The columns of \<^verbatim>\<open>User\<close> that the handlers read or write; the server-side
  creation timestamp is left out.\<close>

record user =
  user_id :: int
  email :: string
  username :: string
  hashed_password :: string
  full_name :: "string option"
  is_active :: bool
  is_hr :: bool

text \<open>\<^verbatim>\<open>Result.scalar_one_or_none()\<close>: no row is \<^verbatim>\<open>None\<close>, one row is that
  row, more rows raise.\<close>

fun scalar_one_or_none :: "'a list \<Rightarrow> error + 'a option" where
  "scalar_one_or_none [] = Inr None"
| "scalar_one_or_none [x] = Inr (Some x)"
| "scalar_one_or_none (x # y # zs) = Inl MultipleResultsFound"

definition not_authenticated :: http_exception where
  "not_authenticated =
     HTTPException 401 ''Not authenticated'' (Some [(''WWW-Authenticate'', ''Bearer'')])"

definition user_not_found :: http_exception where
  "user_not_found = HTTPException 401 ''User not found'' None"

definition inactive_user :: http_exception where
  "inactive_user = HTTPException 400 ''Inactive user'' None"

definition hr_required :: http_exception where
  "hr_required = HTTPException 403 ''HR privileges required'' None"

definition incorrect_login :: http_exception where
  "incorrect_login =
     HTTPException 401 ''Incorrect username or password'' (Some [(''WWW-Authenticate'', ''Bearer'')])"


text \<open>app/main.py, \<^verbatim>\<open>get_current_user\<close>. \<open>credentials\<close> is what the
  \<^verbatim>\<open>HTTPBearer(auto_error=False)\<close> dependency hands over: \<open>None\<close> when the request
  carries no bearer credential. The function does not call \<^verbatim>\<open>verify_token\<close>; it
  repeats its \<^verbatim>\<open>try\<close> block, on the secret and algorithm that app/main.py reads
  from the same environment variables with the same defaults.\<close>

definition get_current_user :: "config \<Rightarrow> int \<Rightarrow> user list \<Rightarrow> token option \<Rightarrow> error + user" where
  "get_current_user cfg now db credentials =
     (case credentials of
        None \<Rightarrow> Inl (Http not_authenticated)
      | Some tok \<Rightarrow>
          (case (case jwt_decode now tok (SECRET_KEY cfg) [ALGORITHM cfg] of
                   Inr payload \<Rightarrow>
                     (case sub payload of
                        None \<Rightarrow> Inl (Http credentials_exception)
                      | Some name \<Rightarrow> Inr name)
                 | Inl ExpiredSignatureError \<Rightarrow> Inl (Http expired_exception)
                 | Inl _ \<Rightarrow> Inl (Http credentials_exception)) of
             Inl e \<Rightarrow> Inl e
           | Inr name \<Rightarrow>
               (case scalar_one_or_none (filter (\<lambda>u. username u = name) db) of
                  Inl e \<Rightarrow> Inl e
                | Inr None \<Rightarrow> Inl (Http user_not_found)
                | Inr (Some u) \<Rightarrow>
                    if \<not> is_active u then Inl (Http inactive_user) else Inr u)))"

text \<open>app/main.py, \<^verbatim>\<open>get_current_hr_user\<close>: the body runs on the value of the
  dependency \<^verbatim>\<open>get_current_user\<close>, and not at all when that dependency raises.\<close>

definition require_hr :: "user \<Rightarrow> error + user" where
  "require_hr current_user =
     (if \<not> is_hr current_user then Inl (Http hr_required) else Inr current_user)"

definition get_current_hr_user :: "config \<Rightarrow> int \<Rightarrow> user list \<Rightarrow> token option \<Rightarrow> error + user" where
  "get_current_hr_user cfg now db credentials =
     (case get_current_user cfg now db credentials of
        Inl e \<Rightarrow> Inl e
      | Inr current_user \<Rightarrow> require_hr current_user)"

section \<open>Registration and login (app/main.py)\<close>


record user_login =
  ul_username :: string
  ul_password :: string

record token_response =
  access_token :: token
  token_type :: string



definition login ::
  "(string \<Rightarrow> string) \<Rightarrow> config \<Rightarrow> int \<Rightarrow> user list \<Rightarrow> user_login \<Rightarrow> error + token_response" where
  "login sha256 cfg now db form_data =
     (case scalar_one_or_none (filter (\<lambda>u. username u = ul_username form_data) db) of
        Inl e \<Rightarrow> Inl e
      | Inr None \<Rightarrow> Inl (Http incorrect_login)
      | Inr (Some u) \<Rightarrow>
          if \<not> verify_password sha256 cfg (ul_password form_data) (hashed_password u)
          then Inl (Http incorrect_login)
          else if \<not> is_active u then Inl (Http inactive_user)
          else
            (let access_token_expires = timedelta_minutes 30;
                 tok = create_access_token cfg now
                         \<lparr> sub = Some (username u), exp = None \<rparr> (Some access_token_expires)
             in Inr \<lparr> access_token = tok, token_type = ''bearer'' \<rparr>))"


section \<open>Concrete instances\<close>

text \<open>The configuration of a process started with an empty environment, and a few
  accounts and requests, for the closed instances of the statements below.\<close>

definition default_config :: config where
  "default_config =
     \<lparr> SECRET_KEY = ''your-secret-key-change-in-production'',
       ALGORITHM = ''HS256'',
       ACCESS_TOKEN_EXPIRE_MINUTES = 30,
       PASSWORD_SALT = ''hr_system_salt_2024'' \<rparr>"



definition alice :: user where
  "alice =
     \<lparr> user_id = 1, email = ''alice@example.com'', username = ''alice'',
       hashed_password = ''sha256:password123hr_system_salt_2024'', full_name = None,
       is_active = True, is_hr = False \<rparr>"

definition mallory :: user where
  "mallory =
     \<lparr> user_id = 2, email = ''mallory@example.com'', username = ''mallory'',
       hashed_password = ''sha256:password123hr_system_salt_2024'', full_name = None,
       is_active = False, is_hr = True \<rparr>"



section \<open>Configuration: the signing secret\<close>

text \<open>
  C1 (as stated): when \<^verbatim>\<open>SECRET_KEY\<close> is unset, loading the auth core is a fatal
  configuration error, and tokens are never issued under a default secret. The code does
  otherwise: with an empty environment the module loads, the secret is the string written
  in the source, and a token is signed under it.
\<close>

theorem C1_unset_secret_loads:
  "load_auth Map.empty = Inr default_config
   \<and> SECRET_KEY default_config = ''your-secret-key-change-in-production''
   \<and> create_access_token default_config 1000 \<lparr>sub = Some ''alice'', exp = None\<rparr> None
       = JWS \<lparr>sub = Some ''alice'', exp = Some 2800\<rparr>
           ''your-secret-key-change-in-production'' ''HS256''"
  by (simp add: load_auth_def getenv_def default_config_def create_access_token_def
      jwt_encode_def timedelta_minutes_def)

text \<open>
  C1 (amended): whether loading the auth core succeeds never depends on
  \<^verbatim>\<open>SECRET_KEY\<close>. With the variable unset the outcome is the one of any other
  environment that agrees on the remaining variables, except that the secret is the fallback
  string of the source; with the variable set to \<open>v\<close> the secret is \<open>v\<close>.
\<close>

theorem C1_secret_fallback:
  "load_auth (env(''SECRET_KEY'' := None)) =
     map_sum id (\<lambda>cfg. cfg\<lparr>SECRET_KEY := ''your-secret-key-change-in-production''\<rparr>)
       (load_auth env)
   \<and> load_auth (env(''SECRET_KEY'' \<mapsto> v)) =
     map_sum id (\<lambda>cfg. cfg\<lparr>SECRET_KEY := v\<rparr>) (load_auth env)"
  by (simp add: load_auth_def getenv_def Let_def split: option.splits)

section \<open>Credential hasher: salting\<close>









section \<open>Token verifier\<close>

lemma verify_token_opaque: "verify_token cfg now (Opaque s) = Inl (Http credentials_exception)"
  by (simp add: verify_token_def)

lemma verify_token_bad_signature:
  "k \<noteq> SECRET_KEY cfg \<or> a \<noteq> ALGORITHM cfg \<Longrightarrow>
   verify_token cfg now (JWS p k a) = Inl (Http credentials_exception)"
  by (auto simp: verify_token_def)

lemma verify_token_expired:
  "exp p = Some e \<Longrightarrow> e \<le> now \<Longrightarrow>
   verify_token cfg now (JWS p (SECRET_KEY cfg) (ALGORITHM cfg)) = Inl (Http expired_exception)"
  by (simp add: verify_token_def)

lemma verify_token_unexpired:
  "unexpired now p \<Longrightarrow>
   verify_token cfg now (JWS p (SECRET_KEY cfg) (ALGORITHM cfg)) =
     (case sub p of None \<Rightarrow> Inl (Http credentials_exception) | Some h \<Rightarrow> Inr h)"
  by (auto simp: verify_token_def unexpired_def split: option.splits)

lemma verify_token_errors:
  "verify_token cfg now tok = Inl e \<Longrightarrow>
   e = Http expired_exception \<or> e = Http credentials_exception"
  by (cases tok) (auto simp: verify_token_def split: if_splits option.splits)

lemma expired_not_credentials: "expired_exception \<noteq> credentials_exception"
  by (simp add: expired_exception_def credentials_exception_def)

text \<open>
  C4: the four decode outcomes of \<^verbatim>\<open>verify_token\<close>. InvalidToken is the exception
  \<open>credentials_exception\<close> ("Could not validate credentials"), ExpiredToken is
  \<open>expired_exception\<close> ("Token has expired"). A malformed bearer value, or one signed
  under another key or algorithm, is invalid; a validly signed one whose expiry is not in
  the future is expired; a validly signed, unexpired one without subject is invalid; a
  validly signed, unexpired one with subject \<open>h\<close> yields exactly \<open>h\<close>. The two error
  values differ, already in their detail text.
\<close>

theorem C4_verify_token_cases:
  "verify_token cfg now (Opaque s) = Inl (Http credentials_exception)
   \<and> (k \<noteq> SECRET_KEY cfg \<or> a \<noteq> ALGORITHM cfg \<longrightarrow>
        verify_token cfg now (JWS p0 k a) = Inl (Http credentials_exception))
   \<and> (exp p1 = Some e \<and> e \<le> now \<longrightarrow>
        verify_token cfg now (JWS p1 (SECRET_KEY cfg) (ALGORITHM cfg))
          = Inl (Http expired_exception))
   \<and> (unexpired now p2 \<and> sub p2 = None \<longrightarrow>
        verify_token cfg now (JWS p2 (SECRET_KEY cfg) (ALGORITHM cfg))
          = Inl (Http credentials_exception))
   \<and> (unexpired now p3 \<and> sub p3 = Some h \<longrightarrow>
        verify_token cfg now (JWS p3 (SECRET_KEY cfg) (ALGORITHM cfg)) = Inr h)
   \<and> Http expired_exception \<noteq> Http credentials_exception
   \<and> detail expired_exception \<noteq> detail credentials_exception"
  using verify_token_opaque [of cfg now s] verify_token_bad_signature [of k cfg a now p0]
    verify_token_expired [of p1 e now cfg] verify_token_unexpired [of now p2 cfg]
    verify_token_unexpired [of now p3 cfg] expired_not_credentials
  by (simp add: expired_exception_def credentials_exception_def)

theorem C4_verify_token_cases_witness:
  "verify_token default_config 1000 (Opaque ''not.a.token'') = Inl (Http credentials_exception)
   \<and> ''another-secret'' \<noteq> SECRET_KEY default_config
   \<and> verify_token default_config 1000
        (JWS \<lparr>sub = Some ''alice'', exp = Some 2800\<rparr> ''another-secret'' ''HS256'')
        = Inl (Http credentials_exception)
   \<and> verify_token default_config 1000
        (JWS \<lparr>sub = Some ''alice'', exp = Some 999\<rparr>
           (SECRET_KEY default_config) (ALGORITHM default_config))
        = Inl (Http expired_exception)
   \<and> unexpired 1000 \<lparr>sub = None, exp = Some 2800\<rparr>
   \<and> verify_token default_config 1000
        (JWS \<lparr>sub = None, exp = Some 2800\<rparr>
           (SECRET_KEY default_config) (ALGORITHM default_config))
        = Inl (Http credentials_exception)
   \<and> unexpired 1000 \<lparr>sub = Some ''alice'', exp = Some 2800\<rparr>
   \<and> verify_token default_config 1000
        (JWS \<lparr>sub = Some ''alice'', exp = Some 2800\<rparr>
           (SECRET_KEY default_config) (ALGORITHM default_config))
        = Inr ''alice''"
  using C4_verify_token_cases [of default_config 1000 "''not.a.token''" "''another-secret''"
      "''HS256''" "\<lparr>sub = Some ''alice'', exp = Some 2800\<rparr>"
      "\<lparr>sub = Some ''alice'', exp = Some 999\<rparr>" 999
      "\<lparr>sub = None, exp = Some 2800\<rparr>"
      "\<lparr>sub = Some ''alice'', exp = Some 2800\<rparr>" "''alice''"]
  by (simp add: default_config_def unexpired_def)

text \<open>
  C5 (failing input): \<^verbatim>\<open>create_access_token({"sub": "alice"}, timedelta(0))\<close> at
  instant 1000 under the default configuration. The test \<^verbatim>\<open>if expires_delta:\<close> takes
  the zero duration for an absent one, the token gets the default lifetime of 30 minutes
  (expiry 2800), and verifying it at instant 1000 returns the subject.
\<close>

theorem C5_ttl_zero_token_verifies:
  "create_access_token default_config 1000 \<lparr>sub = Some ''alice'', exp = None\<rparr> (Some 0)
     = JWS \<lparr>sub = Some ''alice'', exp = Some 2800\<rparr>
         ''your-secret-key-change-in-production'' ''HS256''
   \<and> verify_token default_config 1000
       (create_access_token default_config 1000 \<lparr>sub = Some ''alice'', exp = None\<rparr> (Some 0))
     = Inr ''alice''"
  by (simp add: verify_token_def create_access_token_def jwt_encode_def default_config_def
      timedelta_minutes_def)



section \<open>Credential hasher: round trip\<close>





section \<open>Access guard\<close>

lemma get_current_user_verify_token:
  "get_current_user cfg now db credentials =
     (case credentials of
        None \<Rightarrow> Inl (Http not_authenticated)
      | Some tok \<Rightarrow>
          (case verify_token cfg now tok of
             Inl e \<Rightarrow> Inl e
           | Inr name \<Rightarrow>
               (case scalar_one_or_none (filter (\<lambda>u. username u = name) db) of
                  Inl e \<Rightarrow> Inl e
                | Inr None \<Rightarrow> Inl (Http user_not_found)
                | Inr (Some u) \<Rightarrow>
                    if \<not> is_active u then Inl (Http inactive_user) else Inr u)))"
  by (cases credentials) (simp_all add: get_current_user_def verify_token_def)

lemma get_current_user_error_cases:
  "get_current_user cfg now db credentials = Inl e \<Longrightarrow>
   e \<in> {Http not_authenticated, Http expired_exception, Http credentials_exception,
        Http user_not_found, Http inactive_user, MultipleResultsFound}"
  unfolding get_current_user_verify_token
  by (auto split: option.splits sum.splits if_splits dest: verify_token_errors
      elim: scalar_one_or_none.elims)

lemma get_current_user_active:
  "get_current_user cfg now db credentials = Inr u \<Longrightarrow> is_active u"
  unfolding get_current_user_verify_token
  by (auto split: option.splits sum.splits if_splits)

lemma hr_required_distinct:
  "hr_required \<notin> {not_authenticated, expired_exception, credentials_exception,
        user_not_found, inactive_user}"
  by (simp add: hr_required_def not_authenticated_def expired_exception_def
      credentials_exception_def user_not_found_def inactive_user_def)

text \<open>
  C3: the failure points of \<^verbatim>\<open>get_current_user\<close>, in order. Without bearer
  credential the outcome is Unauthenticated (\<open>not_authenticated\<close>), whatever the store
  holds; an error of the token verifier is passed on unchanged, and it is ExpiredToken or
  InvalidToken; a verified subject with no row of that username is AccountNotFound
  (\<open>user_not_found\<close>); a row with the active flag off is AccountInactive
  (\<open>inactive_user\<close>); otherwise the row is returned.
\<close>

theorem C3_get_current_user_order:
  "get_current_user cfg now db None = Inl (Http not_authenticated)
   \<and> (verify_token cfg now tok0 = Inl e \<longrightarrow>
        get_current_user cfg now db (Some tok0) = Inl e
        \<and> (e = Http expired_exception \<or> e = Http credentials_exception))
   \<and> (verify_token cfg now tok1 = Inr h1 \<and> filter (\<lambda>u. username u = h1) db = [] \<longrightarrow>
        get_current_user cfg now db (Some tok1) = Inl (Http user_not_found))
   \<and> (verify_token cfg now tok2 = Inr h2 \<and> filter (\<lambda>u. username u = h2) db = [acc2]
        \<and> \<not> is_active acc2 \<longrightarrow>
        get_current_user cfg now db (Some tok2) = Inl (Http inactive_user))
   \<and> (verify_token cfg now tok3 = Inr h3 \<and> filter (\<lambda>u. username u = h3) db = [acc3]
        \<and> is_active acc3 \<longrightarrow>
        get_current_user cfg now db (Some tok3) = Inr acc3)"
  using verify_token_errors [of cfg now tok0 e]
  by (simp add: get_current_user_verify_token)

theorem C3_get_current_user_order_witness:
  "get_current_user default_config 1000 [alice, mallory] None = Inl (Http not_authenticated)
   \<and> verify_token default_config 1000
        (JWS \<lparr>sub = Some ''alice'', exp = Some 999\<rparr> ''your-secret-key-change-in-production'' ''HS256'')
        = Inl (Http expired_exception)
   \<and> get_current_user default_config 1000 [alice, mallory]
        (Some (JWS \<lparr>sub = Some ''alice'', exp = Some 999\<rparr> ''your-secret-key-change-in-production'' ''HS256''))
        = Inl (Http expired_exception)
   \<and> get_current_user default_config 1000 [alice, mallory]
        (Some (JWS \<lparr>sub = Some ''nobody'', exp = Some 2800\<rparr> ''your-secret-key-change-in-production'' ''HS256''))
        = Inl (Http user_not_found)
   \<and> \<not> is_active mallory
   \<and> get_current_user default_config 1000 [alice, mallory]
        (Some (JWS \<lparr>sub = Some ''mallory'', exp = Some 2800\<rparr> ''your-secret-key-change-in-production'' ''HS256''))
        = Inl (Http inactive_user)
   \<and> is_active alice
   \<and> get_current_user default_config 1000 [alice, mallory]
        (Some (JWS \<lparr>sub = Some ''alice'', exp = Some 2800\<rparr> ''your-secret-key-change-in-production'' ''HS256''))
        = Inr alice"
proof -
  let ?k = "''your-secret-key-change-in-production''"
  have v0: "verify_token default_config 1000 (JWS \<lparr>sub = Some ''alice'', exp = Some 999\<rparr> ?k ''HS256'')
      = Inl (Http expired_exception)"
    by (simp add: verify_token_def default_config_def)
  have v1: "verify_token default_config 1000 (JWS \<lparr>sub = Some ''nobody'', exp = Some 2800\<rparr> ?k ''HS256'')
      = Inr ''nobody''"
    by (simp add: verify_token_def default_config_def)
  have v2: "verify_token default_config 1000 (JWS \<lparr>sub = Some ''mallory'', exp = Some 2800\<rparr> ?k ''HS256'')
      = Inr ''mallory''"
    by (simp add: verify_token_def default_config_def)
  have v3: "verify_token default_config 1000 (JWS \<lparr>sub = Some ''alice'', exp = Some 2800\<rparr> ?k ''HS256'')
      = Inr ''alice''"
    by (simp add: verify_token_def default_config_def)
  have f1: "filter (\<lambda>u. username u = ''nobody'') [alice, mallory] = []"
    by (simp add: alice_def mallory_def)
  have f2: "filter (\<lambda>u. username u = ''mallory'') [alice, mallory] = [mallory]"
    by (simp add: alice_def mallory_def)
  have f3: "filter (\<lambda>u. username u = ''alice'') [alice, mallory] = [alice]"
    by (simp add: alice_def mallory_def)
  have a: "\<not> is_active mallory" "is_active alice"
    by (simp_all add: alice_def mallory_def)
  note t = C3_get_current_user_order [of default_config 1000 "[alice, mallory]"
      "JWS \<lparr>sub = Some ''alice'', exp = Some 999\<rparr> ?k ''HS256''" "Http expired_exception"
      "JWS \<lparr>sub = Some ''nobody'', exp = Some 2800\<rparr> ?k ''HS256''" "''nobody''"
      "JWS \<lparr>sub = Some ''mallory'', exp = Some 2800\<rparr> ?k ''HS256''" "''mallory''" mallory
      "JWS \<lparr>sub = Some ''alice'', exp = Some 2800\<rparr> ?k ''HS256''" "''alice''" alice]
  from t v0 v1 v2 v3 f1 f2 f3 a show ?thesis by blast
qed

text \<open>
  C8: the role check of \<^verbatim>\<open>get_current_hr_user\<close> comes strictly after identity
  resolution. Every failure of \<^verbatim>\<open>get_current_user\<close> is the outcome of
  \<^verbatim>\<open>get_current_hr_user\<close> as it stands; the role check's own rejection
  (\<open>hr_required\<close>) occurs only when identity resolution has returned an active account;
  and a request bearing a valid token of an inactive account is rejected as inactive
  whatever its role flag.
\<close>

theorem C8_role_check_after_identity:
  "(get_current_user cfg now db c0 = Inl e \<longrightarrow>
      get_current_hr_user cfg now db c0 = Inl e)
   \<and> (get_current_hr_user cfg now db c1 = Inl (Http hr_required) \<longrightarrow>
      (\<exists>u. get_current_user cfg now db c1 = Inr u \<and> is_active u \<and> \<not> is_hr u))
   \<and> (verify_token cfg now tok = Inr h \<and> filter (\<lambda>u. username u = h) db = [acc]
        \<and> \<not> is_active acc \<longrightarrow>
      get_current_hr_user cfg now db (Some tok) = Inl (Http inactive_user))"
proof (intro conjI)
  show "get_current_user cfg now db c0 = Inl e \<longrightarrow>
      get_current_hr_user cfg now db c0 = Inl e"
    by (simp add: get_current_hr_user_def)
next
  show "get_current_hr_user cfg now db c1 = Inl (Http hr_required) \<longrightarrow>
      (\<exists>u. get_current_user cfg now db c1 = Inr u \<and> is_active u \<and> \<not> is_hr u)"
  proof
    assume r: "get_current_hr_user cfg now db c1 = Inl (Http hr_required)"
    show "\<exists>u. get_current_user cfg now db c1 = Inr u \<and> is_active u \<and> \<not> is_hr u"
    proof (cases "get_current_user cfg now db c1")
      case (Inl e')
      with r have "e' = Http hr_required" by (simp add: get_current_hr_user_def)
      with get_current_user_error_cases [OF Inl] hr_required_distinct show ?thesis by auto
    next
      case (Inr u)
      with r have "\<not> is_hr u"
        by (auto simp: get_current_hr_user_def require_hr_def split: if_splits)
      with Inr get_current_user_active [OF Inr] show ?thesis by simp
    qed
  qed
next
  show "verify_token cfg now tok = Inr h \<and> filter (\<lambda>u. username u = h) db = [acc]
        \<and> \<not> is_active acc \<longrightarrow>
      get_current_hr_user cfg now db (Some tok) = Inl (Http inactive_user)"
    by (simp add: get_current_hr_user_def get_current_user_verify_token)
qed

theorem C8_role_check_after_identity_witness:
  "get_current_user default_config 1000 [alice, mallory] None = Inl (Http not_authenticated)
   \<and> get_current_hr_user default_config 1000 [alice, mallory] None = Inl (Http not_authenticated)
   \<and> get_current_hr_user default_config 1000 [alice, mallory]
        (Some (JWS \<lparr>sub = Some ''alice'', exp = Some 2800\<rparr> ''your-secret-key-change-in-production'' ''HS256''))
        = Inl (Http hr_required)
   \<and> (\<exists>u. get_current_user default_config 1000 [alice, mallory]
        (Some (JWS \<lparr>sub = Some ''alice'', exp = Some 2800\<rparr> ''your-secret-key-change-in-production'' ''HS256''))
        = Inr u \<and> is_active u \<and> \<not> is_hr u)
   \<and> \<not> is_active mallory \<and> is_hr mallory
   \<and> get_current_hr_user default_config 1000 [alice, mallory]
        (Some (JWS \<lparr>sub = Some ''mallory'', exp = Some 2800\<rparr> ''your-secret-key-change-in-production'' ''HS256''))
        = Inl (Http inactive_user)"
proof -
  let ?k = "''your-secret-key-change-in-production''"
  let ?ta = "JWS \<lparr>sub = Some ''alice'', exp = Some 2800\<rparr> ?k ''HS256''"
  let ?tm = "JWS \<lparr>sub = Some ''mallory'', exp = Some 2800\<rparr> ?k ''HS256''"
  have g0: "get_current_user default_config 1000 [alice, mallory] None
      = Inl (Http not_authenticated)"
    by (simp add: get_current_user_verify_token)
  have va: "verify_token default_config 1000 ?ta = Inr ''alice''"
    by (simp add: verify_token_def default_config_def)
  have fa: "filter (\<lambda>u. username u = ''alice'') [alice, mallory] = [alice]"
    by (simp add: alice_def mallory_def)
  have ga: "get_current_user default_config 1000 [alice, mallory] (Some ?ta) = Inr alice"
    unfolding get_current_user_verify_token by (simp add: va) (simp add: alice_def mallory_def)
  have ha: "get_current_hr_user default_config 1000 [alice, mallory] (Some ?ta)
      = Inl (Http hr_required)"
    by (simp add: get_current_hr_user_def ga require_hr_def) (simp add: alice_def)
  have vm: "verify_token default_config 1000 ?tm = Inr ''mallory''"
    by (simp add: verify_token_def default_config_def)
  have fm: "filter (\<lambda>u. username u = ''mallory'') [alice, mallory] = [mallory]"
    by (simp add: alice_def mallory_def)
  have m: "\<not> is_active mallory" "is_hr mallory"
    by (simp_all add: mallory_def)
  note t = C8_role_check_after_identity [of default_config 1000 "[alice, mallory]" None
      "Http not_authenticated" "Some ?ta" ?tm "''mallory''" mallory]
  from t g0 ha vm fm m show ?thesis by blast
qed

section \<open>Login\<close>

text \<open>
  C9 (as stated): every login request naming an inactive account fails with the
  inactive-account error. The password is checked first: for the inactive account mallory
  and a wrong password the outcome is \<open>incorrect_login\<close> (401), not \<open>inactive_user\<close>
  (400).
\<close>

theorem C9_inactive_wrong_password:
  "\<not> is_active mallory
   \<and> login tagged_digest default_config 1000 [alice, mallory]
        \<lparr>ul_username = ''mallory'', ul_password = ''wrong-password''\<rparr>
       = Inl (Http incorrect_login)
   \<and> Http incorrect_login \<noteq> Http inactive_user"
  by (simp add: login_def alice_def mallory_def verify_password_def get_password_hash_def
      tagged_digest_def default_config_def incorrect_login_def inactive_user_def)

text \<open>
  C9 (amended): login never issues a token for an inactive account. When the username of
  the request resolves to an account with the active flag off, login fails: with the
  inactive-account error when the presented password verifies against the stored digest,
  and with the incorrect-credentials error when it does not.
\<close>

theorem C9_login_inactive_no_token:
  "filter (\<lambda>u. username u = ul_username form_data) db = [acc] \<Longrightarrow> \<not> is_active acc \<Longrightarrow>
   login sha cfg now db form_data =
     Inl (Http (if verify_password sha cfg (ul_password form_data) (hashed_password acc)
                then inactive_user else incorrect_login))"
  by (simp add: login_def)

theorem C9_login_inactive_no_token_witness:
  "filter (\<lambda>u. username u = ''mallory'') [alice, mallory] = [mallory] \<and> \<not> is_active mallory
   \<and> verify_password tagged_digest default_config ''password123'' (hashed_password mallory)
   \<and> login tagged_digest default_config 1000 [alice, mallory]
        \<lparr>ul_username = ''mallory'', ul_password = ''password123''\<rparr>
       = Inl (Http inactive_user)"
proof -
  have f: "filter (\<lambda>u. username u = ul_username \<lparr>ul_username = ''mallory'', ul_password = ''password123''\<rparr>)
      [alice, mallory] = [mallory]"
    by (simp add: alice_def mallory_def)
  have a: "\<not> is_active mallory"
    by (simp add: mallory_def)
  have v: "verify_password tagged_digest default_config ''password123'' (hashed_password mallory)"
    by (simp add: verify_password_def get_password_hash_def tagged_digest_def
        default_config_def mallory_def)
  from C9_login_inactive_no_token [OF f a, of tagged_digest default_config 1000] f a v
  show ?thesis by simp
qed

text \<open>
  C10: a token issued by a successful login carries the expiry instant 30 minutes (1800
  seconds) after the instant of signing, and the outcome of login is the same whatever the
  configured default lifetime \<^verbatim>\<open>ACCESS_TOKEN_EXPIRE_MINUTES\<close> is.
\<close>

theorem C10_login_lifetime_fixed:
  "(login sha cfg now db form_data = Inr r \<longrightarrow>
      (\<exists>p. access_token r = JWS p (SECRET_KEY cfg) (ALGORITHM cfg)
           \<and> exp p = Some (now + 30 * 60)))
   \<and> login sha (cfg\<lparr>ACCESS_TOKEN_EXPIRE_MINUTES := m\<rparr>) now db form_data
       = login sha cfg now db form_data"
  by (auto simp: login_def create_access_token_def jwt_encode_def timedelta_minutes_def
      verify_token_def verify_password_def get_password_hash_def Let_def
      split: sum.splits option.splits if_splits)

theorem C10_login_lifetime_fixed_witness:
  "login tagged_digest default_config 1000 [alice, mallory]
       \<lparr>ul_username = ''alice'', ul_password = ''password123''\<rparr>
     = Inr \<lparr>access_token = JWS \<lparr>sub = Some ''alice'', exp = Some 2800\<rparr>
                              ''your-secret-key-change-in-production'' ''HS256'',
            token_type = ''bearer''\<rparr>
   \<and> (\<exists>p. JWS \<lparr>sub = Some ''alice'', exp = Some 2800\<rparr>
              ''your-secret-key-change-in-production'' ''HS256''
            = JWS p (SECRET_KEY default_config) (ALGORITHM default_config)
          \<and> exp p = Some (1000 + 30 * 60))
   \<and> login tagged_digest (default_config\<lparr>ACCESS_TOKEN_EXPIRE_MINUTES := 5\<rparr>) 1000 [alice, mallory]
       \<lparr>ul_username = ''alice'', ul_password = ''password123''\<rparr>
     = login tagged_digest default_config 1000 [alice, mallory]
       \<lparr>ul_username = ''alice'', ul_password = ''password123''\<rparr>"
proof -
  let ?r = "\<lparr>access_token = JWS \<lparr>sub = Some ''alice'', exp = Some 2800\<rparr>
                              ''your-secret-key-change-in-production'' ''HS256'',
            token_type = ''bearer''\<rparr>"
  have l: "login tagged_digest default_config 1000 [alice, mallory]
       \<lparr>ul_username = ''alice'', ul_password = ''password123''\<rparr> = Inr ?r"
    by (simp add: login_def alice_def mallory_def verify_password_def get_password_hash_def
        tagged_digest_def default_config_def create_access_token_def jwt_encode_def
        timedelta_minutes_def Let_def)
  from C10_login_lifetime_fixed [of tagged_digest default_config 1000 "[alice, mallory]"
      "\<lparr>ul_username = ''alice'', ul_password = ''password123''\<rparr>" ?r 5] l
  show ?thesis by simp
qed

end
